theory Spec2Isabelle
  imports Main "HOL-Library.Word"
begin

section \<open>The liveness reconciler of the NodeClaim lifecycle controller\<close>

text \<open>
  A shallow embedding of \<^verbatim>\<open>pkg/controllers/nodeclaim/lifecycle/liveness.go\<close>.
  The reconciler reads two status conditions of a NodeClaim, reads a clock, and calls a
  Kubernetes client (Get and Status().Patch on the owning NodePool, Delete on the
  NodeClaim). The clock and the client are interfaces: the model takes them as
  functions over a state \<open>'s\<close> of the outside world and records every call, with
  its answer, in a trace.
\<close>

subsection \<open>Objects\<close>

datatype ConditionStatus = ConditionTrue | ConditionFalse | ConditionUnknown

text \<open>An instant (\<^verbatim>\<open>time.Time\<close>) in nanoseconds; a \<^verbatim>\<open>time.Duration\<close> is a signed
  64-bit count of nanoseconds, so subtraction wraps and comparisons are signed.\<close>

type_synonym Time = int
type_synonym Duration = "64 word"

record Condition =
  Type :: string
  Status :: ConditionStatus
  Reason :: string
  Message :: string
  LastTransitionTime :: Time

record ObjectMeta =
  Name :: string
  ResourceVersion :: nat
  Labels :: "string \<rightharpoonup> string"

record NodeClaim = ObjectMeta +
  NodeClaimConditions :: "Condition list"

record NodePool = ObjectMeta +
  NodePoolConditions :: "Condition list"

text \<open>
  Modelled from the spec: the names of the two claim conditions and of the pool's health
  condition, the label keys (package \<^verbatim>\<open>pkg/apis/v1\<close>) and the label names of the
  counter (package \<^verbatim>\<open>pkg/metrics\<close>), which the source imports. No general property
  below depends on how they are spelt.
\<close>

definition ConditionTypeLaunched :: string where
  "ConditionTypeLaunched = ''Launched''"

definition ConditionTypeRegistered :: string where
  "ConditionTypeRegistered = ''Registered''"

definition ConditionTypeNodeRegistrationHealthy :: string where
  "ConditionTypeNodeRegistrationHealthy = ''NodeRegistrationHealthy''"

definition NodePoolLabelKey :: string where
  "NodePoolLabelKey = ''karpenter.sh/nodepool''"

definition CapacityTypeLabelKey :: string where
  "CapacityTypeLabelKey = ''karpenter.sh/capacity-type''"

definition ReasonLabel :: string where
  "ReasonLabel = ''reason''"

definition NodePoolLabel :: string where
  "NodePoolLabel = ''nodepool''"

definition CapacityTypeLabel :: string where
  "CapacityTypeLabel = ''capacity_type''"

text \<open>Indexing a Go map: a missing key gives the empty string.\<close>

definition label :: "(string \<rightharpoonup> string) \<Rightarrow> string \<Rightarrow> string" where
  "label m k = (case m k of None \<Rightarrow> [] | Some v \<Rightarrow> v)"

subsection \<open>The condition set\<close>

text \<open>
  Modelled from the spec: the condition library behind \<^verbatim>\<open>StatusConditions()\<close> is
  imported by the source, not part of it. A condition is looked up by its type and may be
  absent (a nil pointer in the source). The predicates are nil-safe as in the library: an
  absent condition is neither True nor False, and it counts as Unknown.
\<close>

definition ConditionSet_Get :: "Condition list \<Rightarrow> string \<Rightarrow> Condition option" where
  "ConditionSet_Get cs t = find (\<lambda>c. Type c = t) cs"

definition IsTrue :: "Condition option \<Rightarrow> bool" where
  "IsTrue c = (case c of None \<Rightarrow> False | Some x \<Rightarrow> Status x = ConditionTrue)"

definition IsFalse :: "Condition option \<Rightarrow> bool" where
  "IsFalse c = (case c of None \<Rightarrow> False | Some x \<Rightarrow> Status x = ConditionFalse)"

definition IsUnknown :: "Condition option \<Rightarrow> bool" where
  "IsUnknown c = (case c of None \<Rightarrow> True | Some x \<Rightarrow> Status x = ConditionUnknown)"

text \<open>
  Modelled from the spec: \<^verbatim>\<open>SetFalse\<close> of the condition library stores, for the given
  type, a condition with status False and the given reason and message, in place of an
  older entry of that type. The library stamps the entry with the wall-clock time of the
  change, here the argument \<open>now\<close>.
\<close>

definition SetFalse :: "Condition list \<Rightarrow> string \<Rightarrow> string \<Rightarrow> string \<Rightarrow> Time \<Rightarrow> Condition list" where
  "SetFalse cs t reason message now =
     filter (\<lambda>c. Type c \<noteq> t) cs @
     [\<lparr>Type = t, Status = ConditionFalse, Reason = reason, Message = message,
       LastTransitionTime = now\<rparr>]"

subsection \<open>Errors and results\<close>

text \<open>
  The errors of the API machinery that the reconciler tells apart, and the panic of a
  nil dereference carried as a value.
\<close>

datatype error = NotFound | Conflict | Other string | Panic string

definition IgnoreNotFound :: "error option \<Rightarrow> error option" where
  "IgnoreNotFound err = (if err = Some NotFound then None else err)"

definition IsConflict :: "error option \<Rightarrow> bool" where
  "IsConflict err = (err = Some Conflict)"

text \<open>\<^verbatim>\<open>reconcile.Result\<close>; the zero value means done.\<close>

record Result =
  Requeue :: bool
  RequeueAfter :: Duration

subsection \<open>The timeouts\<close>

definition Minute :: Duration where
  "Minute = 60000000000"

definition registrationTimeout :: Duration where
  "registrationTimeout = Minute * 15"

definition registrationTimeoutReason :: string where
  "registrationTimeoutReason = ''registration_timeout''"

definition launchTimeout :: Duration where
  "launchTimeout = Minute * 5"

definition launchTimeoutReason :: string where
  "launchTimeoutReason = ''launch_timeout''"

record NodeClaimTimeout =
  duration :: Duration
  reason :: string

definition RegistrationTimeout :: NodeClaimTimeout where
  "RegistrationTimeout = \<lparr>duration = registrationTimeout, reason = registrationTimeoutReason\<rparr>"

definition LaunchTimeout :: NodeClaimTimeout where
  "LaunchTimeout = \<lparr>duration = launchTimeout, reason = launchTimeoutReason\<rparr>"

subsection \<open>The clock, the client and the trace of calls\<close>

text \<open>
  \<^verbatim>\<open>clock.Clock\<close> and \<^verbatim>\<open>client.Client\<close> as the methods the reconciler calls. Each
  method reads and may change the outside world \<open>'s\<close>. \<open>StatusPatch p stored\<close> is
  \<^verbatim>\<open>Status().Patch(ctx, p, MergeFromWithOptions(stored, MergeFromWithOptimisticLock{}))\<close>.
\<close>

record 's Clock =
  Since :: "Time \<Rightarrow> 's \<Rightarrow> Duration \<times> 's"

record 's Client =
  Get :: "string \<Rightarrow> 's \<Rightarrow> (error + NodePool) \<times> 's"
  Delete :: "NodeClaim \<Rightarrow> 's \<Rightarrow> error option \<times> 's"
  StatusPatch :: "NodePool \<Rightarrow> NodePool \<Rightarrow> 's \<Rightarrow> error option \<times> 's"

text \<open>The struct \<^verbatim>\<open>Liveness\<close>, and with it the wall clock that the condition library
  reads when it stamps a changed condition.\<close>

record 's Liveness =
  clock :: "'s Clock"
  kubeClient :: "'s Client"
  wallNow :: "'s \<Rightarrow> Time"

datatype event =
    EvSince Time Duration
  | EvGet string "error + NodePool"
  | EvStatusPatch NodePool NodePool "error option"
  | EvDelete NodeClaim "error option"
  | EvInfo Duration string
  | EvInc "(string \<times> string) list"

record 's world =
  ext :: 's
  trace :: "event list"

definition clock_Since :: "'s Liveness \<Rightarrow> Time \<Rightarrow> 's world \<Rightarrow> Duration \<times> 's world" where
  "clock_Since l t w =
     (case Since (clock l) t (ext w) of
        (d, s) \<Rightarrow> (d, \<lparr>ext = s, trace = trace w @ [EvSince t d]\<rparr>))"

definition kubeClient_Get :: "'s Liveness \<Rightarrow> string \<Rightarrow> 's world \<Rightarrow> (error + NodePool) \<times> 's world" where
  "kubeClient_Get l name w =
     (case Get (kubeClient l) name (ext w) of
        (r, s) \<Rightarrow> (r, \<lparr>ext = s, trace = trace w @ [EvGet name r]\<rparr>))"

definition kubeClient_StatusPatch ::
  "'s Liveness \<Rightarrow> NodePool \<Rightarrow> NodePool \<Rightarrow> 's world \<Rightarrow> error option \<times> 's world" where
  "kubeClient_StatusPatch l nodePool stored w =
     (case StatusPatch (kubeClient l) nodePool stored (ext w) of
        (r, s) \<Rightarrow> (r, \<lparr>ext = s, trace = trace w @ [EvStatusPatch nodePool stored r]\<rparr>))"

definition kubeClient_Delete :: "'s Liveness \<Rightarrow> NodeClaim \<Rightarrow> 's world \<Rightarrow> error option \<times> 's world" where
  "kubeClient_Delete l nodeClaim w =
     (case Delete (kubeClient l) nodeClaim (ext w) of
        (r, s) \<Rightarrow> (r, \<lparr>ext = s, trace = trace w @ [EvDelete nodeClaim r]\<rparr>))"

definition emit :: "event \<Rightarrow> 's world \<Rightarrow> 's world" where
  "emit e w = w\<lparr>trace := trace w @ [e]\<rparr>"

subsection \<open>The reconciler\<close>

text \<open>\<^verbatim>\<open>deleteNodeClaimForTimeout\<close> (lines 144 to 155): the log line and the counter
  follow a Delete that returned no error.\<close>

definition deleteNodeClaimForTimeout ::
  "'s Liveness \<Rightarrow> NodeClaimTimeout \<Rightarrow> NodeClaim \<Rightarrow> 's world \<Rightarrow> error option \<times> 's world" where
  "deleteNodeClaimForTimeout l timeout nodeClaim w =
     (case kubeClient_Delete l nodeClaim w of
        (Some err, w1) \<Rightarrow> (Some err, w1)
      | (None, w1) \<Rightarrow>
          (None,
           emit (EvInc [(ReasonLabel, reason timeout),
                        (NodePoolLabel, label (Labels nodeClaim) NodePoolLabelKey),
                        (CapacityTypeLabel, label (Labels nodeClaim) CapacityTypeLabelKey)])
             (emit (EvInfo (duration timeout) (reason timeout)) w1)))"

text \<open>\<^verbatim>\<open>updateNodePoolRegistrationHealth\<close> (lines 117 to 142). \<open>stored\<close> is the deep
  copy taken before the condition is set. Reading the reason of an absent Launched
  condition (line 131) is a nil dereference; \<^verbatim>\<open>Reconcile\<close> calls the function only
  with the condition present.\<close>

definition updateNodePoolRegistrationHealth ::
  "'s Liveness \<Rightarrow> NodeClaim \<Rightarrow> 's world \<Rightarrow> error option \<times> 's world" where
  "updateNodePoolRegistrationHealth l nodeClaim w =
     (let nodePoolName = label (Labels nodeClaim) NodePoolLabelKey in
      if nodePoolName \<noteq> [] then
        (case kubeClient_Get l nodePoolName w of
           (Inl err, w1) \<Rightarrow> (Some err, w1)
         | (Inr nodePool, w1) \<Rightarrow>
             if IsUnknown (ConditionSet_Get (NodePoolConditions nodePool)
                             ConditionTypeNodeRegistrationHealthy) then
               (let stored = nodePool;
                    launchCondition = ConditionSet_Get (NodeClaimConditions nodeClaim)
                                        ConditionTypeLaunched
                in
                case (if IsTrue launchCondition then
                        Inr (SetFalse (NodePoolConditions nodePool)
                               ConditionTypeNodeRegistrationHealthy
                               ''RegistrationFailed'' ''Failed to register node''
                               (wallNow l (ext w1)))
                      else
                        (case launchCondition of
                           None \<Rightarrow> Inl (Panic ''nil pointer dereference'')
                         | Some lc \<Rightarrow>
                             Inr (SetFalse (NodePoolConditions nodePool)
                                    ConditionTypeNodeRegistrationHealthy
                                    (Reason lc) (Message lc) (wallNow l (ext w1))))) of
                  Inl p \<Rightarrow> (Some p, w1)
                | Inr conditions \<Rightarrow>
                    (case kubeClient_StatusPatch l
                            (nodePool\<lparr>NodePoolConditions := conditions\<rparr>) stored w1 of
                       (err, w2) \<Rightarrow>
                         if IgnoreNotFound err \<noteq> None then (err, w2) else (None, w2)))
             else (None, w1))
      else (None, w))"

text \<open>
  \<^verbatim>\<open>Reconcile\<close> (lines 70 to 113). The source has one body with early returns;
  \<open>Reconcile_registration\<close> is its part from the test \<^verbatim>\<open>registered == nil\<close> to the end
  (lines 91 to 112), which is reached when Launched is True and also when the launch-stage
  block (lines 79 to 90) is left without a return, that is after a Delete that returned
  no error. The nil tests of lines 76 and 91 come before every read of a field of the
  condition.
\<close>

definition Reconcile_registration ::
  "'s Liveness \<Rightarrow> NodeClaim \<Rightarrow> Condition option \<Rightarrow> 's world
     \<Rightarrow> (Result \<times> error option) \<times> 's world" where
  "Reconcile_registration l nodeClaim registered w =
     (case registered of
        None \<Rightarrow> ((\<lparr>Requeue = True, RequeueAfter = 0\<rparr>, None), w)
      | Some rc \<Rightarrow>
          (case clock_Since l (LastTransitionTime rc) w of
             (d, w1) \<Rightarrow>
               (let timeUntilTimeout = registrationTimeout - d in
                if 0 <s timeUntilTimeout then
                  ((\<lparr>Requeue = False, RequeueAfter = timeUntilTimeout\<rparr>, None), w1)
                else
                  (case updateNodePoolRegistrationHealth l nodeClaim w1 of
                     (err, w2) \<Rightarrow>
                       if IgnoreNotFound err \<noteq> None then
                         (if IsConflict err then
                            ((\<lparr>Requeue = True, RequeueAfter = 0\<rparr>, None), w2)
                          else ((\<lparr>Requeue = False, RequeueAfter = 0\<rparr>, err), w2))
                       else
                         (case deleteNodeClaimForTimeout l RegistrationTimeout nodeClaim w2 of
                            (Some err', w3) \<Rightarrow>
                              if IgnoreNotFound (Some err') \<noteq> None then
                                ((\<lparr>Requeue = False, RequeueAfter = 0\<rparr>, Some err'), w3)
                              else ((\<lparr>Requeue = False, RequeueAfter = 0\<rparr>, None), w3)
                          | (None, w3) \<Rightarrow>
                              ((\<lparr>Requeue = False, RequeueAfter = 0\<rparr>, None), w3))))))"

definition Reconcile ::
  "'s Liveness \<Rightarrow> NodeClaim \<Rightarrow> 's world \<Rightarrow> (Result \<times> error option) \<times> 's world" where
  "Reconcile l nodeClaim w =
     (let registered = ConditionSet_Get (NodeClaimConditions nodeClaim) ConditionTypeRegistered in
      if IsTrue registered then ((\<lparr>Requeue = False, RequeueAfter = 0\<rparr>, None), w)
      else
        (let launched = ConditionSet_Get (NodeClaimConditions nodeClaim) ConditionTypeLaunched in
         case launched of
           None \<Rightarrow> ((\<lparr>Requeue = True, RequeueAfter = 0\<rparr>, None), w)
         | Some lc \<Rightarrow>
             if \<not> IsTrue launched then
               (case clock_Since l (LastTransitionTime lc) w of
                  (d, w1) \<Rightarrow>
                    (let timeUntilTimeout = launchTimeout - d in
                     if 0 <s timeUntilTimeout then
                       ((\<lparr>Requeue = False, RequeueAfter = timeUntilTimeout\<rparr>, None), w1)
                     else
                       (case deleteNodeClaimForTimeout l LaunchTimeout nodeClaim w1 of
                          (Some err, w2) \<Rightarrow>
                            if IgnoreNotFound (Some err) \<noteq> None then
                              ((\<lparr>Requeue = False, RequeueAfter = 0\<rparr>, Some err), w2)
                            else ((\<lparr>Requeue = False, RequeueAfter = 0\<rparr>, None), w2)
                        | (None, w2) \<Rightarrow> Reconcile_registration l nodeClaim registered w2)))
             else Reconcile_registration l nodeClaim registered w))"

text \<open>The two conditions that \<^verbatim>\<open>Reconcile\<close> reads, as it reads them.\<close>

abbreviation registeredCondition :: "NodeClaim \<Rightarrow> Condition option" where
  "registeredCondition nodeClaim \<equiv>
     ConditionSet_Get (NodeClaimConditions nodeClaim) ConditionTypeRegistered"

abbreviation launchedCondition :: "NodeClaim \<Rightarrow> Condition option" where
  "launchedCondition nodeClaim \<equiv>
     ConditionSet_Get (NodeClaimConditions nodeClaim) ConditionTypeLaunched"

subsection \<open>Reading a trace\<close>

text \<open>The events that a run from \<open>w\<close> to \<open>w'\<close> added.\<close>

definition calls :: "'s world \<Rightarrow> 's world \<Rightarrow> event list" where
  "calls w w' = drop (length (trace w)) (trace w')"

fun isDelete :: "event \<Rightarrow> bool" where
  "isDelete (EvDelete c r) = True"
| "isDelete e = False"

fun isDeleted :: "event \<Rightarrow> bool" where
  "isDeleted (EvDelete c None) = True"
| "isDeleted e = False"

fun isStatusPatch :: "event \<Rightarrow> bool" where
  "isStatusPatch (EvStatusPatch p stored r) = True"
| "isStatusPatch e = False"

fun isInc :: "event \<Rightarrow> bool" where
  "isInc (EvInc labels) = True"
| "isInc e = False"

text \<open>
  A conditional status patch that takes the registration health of a pool from Unknown to
  False and changes nothing else: no other condition, no other field of the pool.
\<close>

fun unknownToFalse :: "event \<Rightarrow> bool" where
  "unknownToFalse (EvStatusPatch p stored r) =
     (IsUnknown (ConditionSet_Get (NodePoolConditions stored) ConditionTypeNodeRegistrationHealthy)
      \<and> IsFalse (ConditionSet_Get (NodePoolConditions p) ConditionTypeNodeRegistrationHealthy)
      \<and> filter (\<lambda>c. Type c \<noteq> ConditionTypeNodeRegistrationHealthy) (NodePoolConditions p)
          = filter (\<lambda>c. Type c \<noteq> ConditionTypeNodeRegistrationHealthy)
              (NodePoolConditions stored)
      \<and> p\<lparr>NodePoolConditions := NodePoolConditions stored\<rparr> = stored)"
| "unknownToFalse e = True"

text \<open>The labels of the counter for a deletion of \<open>nodeClaim\<close> with the given reason.\<close>

definition disrupted :: "string \<Rightarrow> NodeClaim \<Rightarrow> event" where
  "disrupted r nodeClaim =
     EvInc [(ReasonLabel, r),
            (NodePoolLabel, label (Labels nodeClaim) NodePoolLabelKey),
            (CapacityTypeLabel, label (Labels nodeClaim) CapacityTypeLabelKey)]"

subsection \<open>A store and a clock to run the reconciler on\<close>

text \<open>
  \<^verbatim>\<open>time.Time.Sub\<close>, which every clock's \<^verbatim>\<open>Since\<close> goes through: the difference
  of two instants, held at the least or the greatest Duration when it does not fit.
\<close>

definition Sub :: "Time \<Rightarrow> Time \<Rightarrow> Duration" where
  "Sub t u =
     (let d = t - u in
      if d < - (2 ^ 63) then word_of_int (- (2 ^ 63))
      else if 2 ^ 63 - 1 < d then word_of_int (2 ^ 63 - 1)
      else word_of_int d)"

text \<open>
  Modelled from the spec: the cluster API store is outside the repository; this is the
  store of section 6 of the specification with no other writer and no fault. Get answers
  NotFound for a missing pool; Delete removes the claim of that name and answers NotFound
  when it is gone; the conditional status patch answers NotFound for a missing pool,
  Conflict when the stored resource version differs from the one read, and otherwise
  stores the conditions under the next resource version. The clock stands still, as the
  fake clock of a test does.
\<close>

record cluster =
  now :: Time
  nodeClaims :: "NodeClaim list"
  nodePools :: "NodePool list"

definition fakeClock :: "cluster Clock" where
  "fakeClock = \<lparr>Since = (\<lambda>t s. (Sub (now s) t, s))\<rparr>"

definition memClient :: "cluster Client" where
  "memClient =
     \<lparr>Get = (\<lambda>name s.
         (case find (\<lambda>p. Name p = name) (nodePools s) of
            None \<Rightarrow> (Inl NotFound, s)
          | Some p \<Rightarrow> (Inr p, s))),
      Delete = (\<lambda>nodeClaim s.
         (case find (\<lambda>c. Name c = Name nodeClaim) (nodeClaims s) of
            None \<Rightarrow> (Some NotFound, s)
          | Some c \<Rightarrow>
              (None,
               s\<lparr>nodeClaims := filter (\<lambda>c. Name c \<noteq> Name nodeClaim) (nodeClaims s)\<rparr>))),
      StatusPatch = (\<lambda>nodePool stored s.
         (case find (\<lambda>p. Name p = Name nodePool) (nodePools s) of
            None \<Rightarrow> (Some NotFound, s)
          | Some p \<Rightarrow>
              if ResourceVersion p \<noteq> ResourceVersion stored then (Some Conflict, s)
              else (None,
                    s\<lparr>nodePools :=
                        map (\<lambda>q. if Name q = Name nodePool
                                  then q\<lparr>NodePoolConditions := NodePoolConditions nodePool,
                                         ResourceVersion := Suc (ResourceVersion q)\<rparr>
                                  else q)
                          (nodePools s)\<rparr>)))\<rparr>"

definition memLiveness :: "cluster Liveness" where
  "memLiveness = \<lparr>clock = fakeClock, kubeClient = memClient, wallNow = now\<rparr>"

text \<open>The store holds no claim of this name.\<close>

definition gone :: "NodeClaim \<Rightarrow> cluster \<Rightarrow> bool" where
  "gone nodeClaim s = (find (\<lambda>c. Name c = Name nodeClaim) (nodeClaims s) = None)"

text \<open>The same store when another writer has changed the pool since it was read: every
  conditional patch answers Conflict.\<close>

definition racingLiveness :: "cluster Liveness" where
  "racingLiveness =
     memLiveness\<lparr>kubeClient := memClient\<lparr>StatusPatch := (\<lambda>nodePool stored s. (Some Conflict, s))\<rparr>\<rparr>"


text \<open>Test objects: a claim of pool \<open>default\<close> with the given conditions, the pool with
  the given registration health, and a cluster that holds both at a given time.\<close>

definition testCondition :: "string \<Rightarrow> ConditionStatus \<Rightarrow> Time \<Rightarrow> Condition" where
  "testCondition t st at =
     \<lparr>Type = t, Status = st, Reason = ''TestReason'', Message = ''test message'',
      LastTransitionTime = at\<rparr>"

definition testClaim :: "Condition list \<Rightarrow> NodeClaim" where
  "testClaim cs =
     \<lparr>Name = ''claim-a'', ResourceVersion = 1,
      Labels = [NodePoolLabelKey \<mapsto> ''default'', CapacityTypeLabelKey \<mapsto> ''spot''],
      NodeClaimConditions = cs\<rparr>"

definition testPool :: "ConditionStatus \<Rightarrow> NodePool" where
  "testPool st =
     \<lparr>Name = ''default'', ResourceVersion = 7, Labels = Map.empty,
      NodePoolConditions = [testCondition ConditionTypeNodeRegistrationHealthy st 0]\<rparr>"

definition testCluster :: "Time \<Rightarrow> Condition list \<Rightarrow> ConditionStatus \<Rightarrow> cluster" where
  "testCluster t cs st =
     \<lparr>now = t, nodeClaims = [testClaim cs], nodePools = [testPool st]\<rparr>"

definition launchedConditions :: "Condition list" where
  "launchedConditions =
     [testCondition ConditionTypeLaunched ConditionTrue 0,
      testCondition ConditionTypeRegistered ConditionUnknown 0]"

definition failedConditions :: "Condition list" where
  "failedConditions =
     [testCondition ConditionTypeLaunched ConditionFalse 0,
      testCondition ConditionTypeRegistered ConditionUnknown 0]"

definition failedPool :: "string \<Rightarrow> string \<Rightarrow> Time \<Rightarrow> NodePool" where
  "failedPool r m t =
     (testPool ConditionUnknown)
       \<lparr>NodePoolConditions :=
          [\<lparr>Type = ConditionTypeNodeRegistrationHealthy, Status = ConditionFalse,
            Reason = r, Message = m, LastTransitionTime = t\<rparr>]\<rparr>"

definition start :: "'s \<Rightarrow> 's world" where
  "start s = \<lparr>ext = s, trace = []\<rparr>"

section \<open>Auxiliary facts\<close>

lemmas call_defs = clock_Since_def kubeClient_Get_def kubeClient_StatusPatch_def
  kubeClient_Delete_def emit_def

lemmas body_defs = Reconcile_def Reconcile_registration_def
  updateNodePoolRegistrationHealth_def deleteNodeClaimForTimeout_def

lemmas const_defs = ConditionTypeLaunched_def ConditionTypeRegistered_def
  ConditionTypeNodeRegistrationHealthy_def NodePoolLabelKey_def CapacityTypeLabelKey_def
  ReasonLabel_def NodePoolLabel_def CapacityTypeLabel_def
  registrationTimeoutReason_def launchTimeoutReason_def
  RegistrationTimeout_def LaunchTimeout_def

lemmas fixture_defs = launchedConditions_def failedConditions_def failedPool_def

lemmas test_defs = memLiveness_def racingLiveness_def memClient_def fakeClock_def
  testCondition_def testClaim_def testPool_def testCluster_def start_def
  ConditionSet_Get_def IsTrue_def IsFalse_def IsUnknown_def SetFalse_def
  IgnoreNotFound_def IsConflict_def label_def disrupted_def calls_def

lemmas time_defs = launchTimeout_def registrationTimeout_def Minute_def Sub_def
  word_sless_alt word_sle_eq

subsection \<open>Signed 64-bit durations\<close>

lemma sint_launchTimeout: "sint launchTimeout = 300000000000"
  by (simp add: launchTimeout_def Minute_def)

lemma sint_registrationTimeout: "sint registrationTimeout = 900000000000"
  by (simp add: registrationTimeout_def Minute_def)

lemma sint_range64: "- (2 ^ 63) \<le> sint (d :: Duration)" "sint (d :: Duration) < 2 ^ 63"
  using sint_ge [of d] sint_lt [of d] by simp_all

lemma sint_diff_exact:
  fixes T d :: Duration
  assumes "- (2 ^ 63) \<le> sint T - sint d" "sint T - sint d < 2 ^ 63"
  shows "sint (T - d) = sint T - sint d"
  using assms by (simp add: sint_word_ariths signed_take_bit_int_eq_self)

text \<open>Once the elapsed time has reached a timeout that is not negative, the remaining
  time is computed without overflow and is not positive.\<close>

lemma timed_out:
  fixes T d :: Duration
  assumes "T \<le>s d" "0 \<le>s T"
  shows "\<not> 0 <s T - d"
proof -
  from assms have a: "sint T \<le> sint d" "0 \<le> sint T"
    by (simp_all add: word_sle_eq)
  have "sint (T - d) = sint T - sint d"
    using a sint_range64 [of d] sint_range64 [of T] by (intro sint_diff_exact) linarith+
  with a show ?thesis by (simp add: word_sless_alt)
qed

text \<open>Before the timeout the remaining time is positive and exact, provided the
  difference fits a Duration.\<close>

lemma in_window:
  fixes T d :: Duration
  assumes "d <s T" "sint T - sint d < 2 ^ 63"
  shows "0 <s T - d \<and> sint (T - d) = sint T - sint d"
proof -
  from assms have a: "sint d < sint T"
    by (simp add: word_sless_alt)
  have e: "sint (T - d) = sint T - sint d"
    using a assms(2) by (intro sint_diff_exact) linarith+
  with a show ?thesis by (simp add: word_sless_alt)
qed

lemma launchTimeout_nonneg: "0 \<le>s launchTimeout"
  by (simp add: word_sle_eq sint_launchTimeout)

lemma registrationTimeout_nonneg: "0 \<le>s registrationTimeout"
  by (simp add: word_sle_eq sint_registrationTimeout)

subsection \<open>Conditions\<close>

lemma ConditionSet_Get_SetFalse:
  "ConditionSet_Get (SetFalse cs t r m n) t =
     Some \<lparr>Type = t, Status = ConditionFalse, Reason = r, Message = m,
            LastTransitionTime = n\<rparr>"
  by (induction cs) (simp_all add: ConditionSet_Get_def SetFalse_def)

lemma filter_SetFalse:
  "filter (\<lambda>c. Type c \<noteq> t) (SetFalse cs t r m n) = filter (\<lambda>c. Type c \<noteq> t) cs"
  by (simp add: SetFalse_def)

lemma IsFalse_SetFalse: "IsFalse (ConditionSet_Get (SetFalse cs t r m n) t)"
  by (simp add: ConditionSet_Get_SetFalse IsFalse_def)

subsection \<open>What each function adds to the trace\<close>

lemma isDeleted_isDelete: "isDeleted e \<Longrightarrow> isDelete e"
  by (induction e rule: isDeleted.induct) simp_all

lemma deleteNodeClaimForTimeout_calls:
  assumes "Delete (kubeClient l) nodeClaim (ext w) = (r, s)"
  shows "deleteNodeClaimForTimeout l timeout nodeClaim w =
           (r, \<lparr>ext = s,
                trace = trace w @ EvDelete nodeClaim r #
                  (if r = None
                   then [EvInfo (duration timeout) (reason timeout),
                         disrupted (reason timeout) nodeClaim]
                   else [])\<rparr>)"
  using assms
  by (cases r)
     (simp_all add: deleteNodeClaimForTimeout_def kubeClient_Delete_def emit_def disrupted_def)

lemma updateNodePoolRegistrationHealth_calls:
  "\<exists>evs. trace (snd (updateNodePoolRegistrationHealth l nodeClaim w)) = trace w @ evs
         \<and> (\<forall>e \<in> set evs. \<not> isInc e \<and> \<not> isDelete e \<and> unknownToFalse e)
         \<and> length (filter isStatusPatch evs) \<le> 1"
  by (auto simp add: updateNodePoolRegistrationHealth_def kubeClient_Get_def
        kubeClient_StatusPatch_def Let_def filter_SetFalse IsFalse_SetFalse
      split: prod.splits sum.splits option.splits if_splits)

text \<open>
  The registration stage adds a list of events in which every counter increment follows
  a Delete that returned no error, every pool patch takes the health from Unknown to
  False, every Delete is of this claim, and a Delete answered NotFound ends the run as
  done; it calls Delete and the status patch at most once each, and never tags a
  deletion as a launch timeout.
\<close>

lemma Reconcile_registration_calls:
  "\<exists>rest. trace (snd (Reconcile_registration l nodeClaim registered w)) = trace w @ rest
      \<and> length (filter isInc rest) = length (filter isDeleted rest)
      \<and> (\<forall>e \<in> set rest. unknownToFalse e)
      \<and> (\<forall>e \<in> set rest. isDelete e \<longrightarrow> (\<exists>r. e = EvDelete nodeClaim r))
      \<and> (EvDelete nodeClaim (Some NotFound) \<in> set rest \<longrightarrow>
            fst (Reconcile_registration l nodeClaim registered w)
              = (\<lparr>Requeue = False, RequeueAfter = 0\<rparr>, None))
      \<and> length (filter isDelete rest) \<le> 1
      \<and> length (filter isStatusPatch rest) \<le> 1
      \<and> disrupted launchTimeoutReason nodeClaim \<notin> set rest"
proof (cases registered)
  case None
  then show ?thesis by (simp add: Reconcile_registration_def)
next
  case (Some rc)
  obtain d s1 where since: "Since (clock l) (LastTransitionTime rc) (ext w) = (d, s1)"
    by (cases "Since (clock l) (LastTransitionTime rc) (ext w)")
  define w1 where "w1 = \<lparr>ext = s1, trace = trace w @ [EvSince (LastTransitionTime rc) d]\<rparr>"
  obtain err w2 where upd: "updateNodePoolRegistrationHealth l nodeClaim w1 = (err, w2)"
    by (cases "updateNodePoolRegistrationHealth l nodeClaim w1")
  from updateNodePoolRegistrationHealth_calls [of l nodeClaim w1] upd
  obtain evs where evs: "trace w2 = trace w1 @ evs"
      "\<forall>e \<in> set evs. \<not> isInc e \<and> \<not> isDelete e \<and> unknownToFalse e"
      "length (filter isStatusPatch evs) \<le> 1"
    by auto
  have none: "filter isInc evs = []" "filter isDelete evs = []" "filter isDeleted evs = []"
    using evs(2) by (auto simp add: filter_empty_conv dest: isDeleted_isDelete)
  have nodel: "EvDelete nodeClaim x \<notin> set evs" for x
    using evs(2) by auto
  have notag: "disrupted launchTimeoutReason nodeClaim \<notin> set evs"
    using evs(2) by (auto simp add: disrupted_def)
  have other: "disrupted launchTimeoutReason nodeClaim
                 \<noteq> disrupted registrationTimeoutReason nodeClaim"
    by (simp add: disrupted_def const_defs)
  obtain r s3 where del: "Delete (kubeClient l) nodeClaim (ext w2) = (r, s3)"
    by (cases "Delete (kubeClient l) nodeClaim (ext w2)")
  note step = deleteNodeClaimForTimeout_calls [OF del, of RegistrationTimeout]
  show ?thesis
    using Some since upd evs none nodel notag other step
    by (auto simp add: Reconcile_registration_def clock_Since_def w1_def Let_def
          RegistrationTimeout_def IgnoreNotFound_def disrupted_def
        split: option.splits)
qed

text \<open>The same for a whole run, which may call Delete twice: once in the launch stage
  and once more in the registration stage.\<close>

lemma Reconcile_calls:
  "\<exists>evs. trace (snd (Reconcile l nodeClaim w)) = trace w @ evs
      \<and> length (filter isInc evs) = length (filter isDeleted evs)
      \<and> (\<forall>e \<in> set evs. unknownToFalse e)
      \<and> (\<forall>e \<in> set evs. isDelete e \<longrightarrow> (\<exists>r. e = EvDelete nodeClaim r))
      \<and> (EvDelete nodeClaim (Some NotFound) \<in> set evs \<longrightarrow>
            fst (Reconcile l nodeClaim w) = (\<lparr>Requeue = False, RequeueAfter = 0\<rparr>, None))
      \<and> length (filter isDelete evs) \<le> 2
      \<and> length (filter isStatusPatch evs) \<le> 1"
proof -
  let ?reg = "registeredCondition nodeClaim"
  note tail = Reconcile_registration_calls
  show ?thesis
  proof (cases "IsTrue ?reg")
    case True
    then show ?thesis by (simp add: Reconcile_def)
  next
    case notreg: False
    show ?thesis
    proof (cases "launchedCondition nodeClaim")
      case None
      with notreg show ?thesis by (simp add: Reconcile_def)
    next
      case (Some lc)
      show ?thesis
      proof (cases "IsTrue (Some lc)")
        case True
        from tail [of l nodeClaim ?reg w]
        obtain rest where
          "trace (snd (Reconcile_registration l nodeClaim ?reg w)) = trace w @ rest"
          "length (filter isInc rest) = length (filter isDeleted rest)"
          "\<forall>e \<in> set rest. unknownToFalse e"
          "\<forall>e \<in> set rest. isDelete e \<longrightarrow> (\<exists>r. e = EvDelete nodeClaim r)"
          "EvDelete nodeClaim (Some NotFound) \<in> set rest \<longrightarrow>
             fst (Reconcile_registration l nodeClaim ?reg w)
               = (\<lparr>Requeue = False, RequeueAfter = 0\<rparr>, None)"
          "length (filter isDelete rest) \<le> 1"
          "length (filter isStatusPatch rest) \<le> 1"
          by blast
        with True notreg Some show ?thesis
          by (intro exI [of _ rest]) (simp add: Reconcile_def)
      next
        case False
        obtain d s1 where since: "Since (clock l) (LastTransitionTime lc) (ext w) = (d, s1)"
          by (cases "Since (clock l) (LastTransitionTime lc) (ext w)")
        define w1 where
          "w1 = \<lparr>ext = s1, trace = trace w @ [EvSince (LastTransitionTime lc) d]\<rparr>"
        obtain r s2 where del: "Delete (kubeClient l) nodeClaim (ext w1) = (r, s2)"
          by (cases "Delete (kubeClient l) nodeClaim (ext w1)")
        note step = deleteNodeClaimForTimeout_calls [OF del, of LaunchTimeout]
        define w2 where "w2 = \<lparr>ext = s2,
           trace = trace w1 @ [EvDelete nodeClaim None, EvInfo launchTimeout launchTimeoutReason,
                     disrupted launchTimeoutReason nodeClaim]\<rparr>"
        from tail [of l nodeClaim ?reg w2]
        obtain rest where rest:
          "trace (snd (Reconcile_registration l nodeClaim ?reg w2)) = trace w2 @ rest"
          "length (filter isInc rest) = length (filter isDeleted rest)"
          "\<forall>e \<in> set rest. unknownToFalse e"
          "\<forall>e \<in> set rest. isDelete e \<longrightarrow> (\<exists>r. e = EvDelete nodeClaim r)"
          "EvDelete nodeClaim (Some NotFound) \<in> set rest \<longrightarrow>
             fst (Reconcile_registration l nodeClaim ?reg w2)
               = (\<lparr>Requeue = False, RequeueAfter = 0\<rparr>, None)"
          "length (filter isDelete rest) \<le> 1"
          "length (filter isStatusPatch rest) \<le> 1"
          by blast
        show ?thesis
        proof (cases "0 <s launchTimeout - d")
          case True
          with notreg Some False since show ?thesis
            by (simp add: Reconcile_def clock_Since_def)
        next
          case late: False
          show ?thesis
          proof (cases r)
            case (Some err)
            with notreg \<open>launchedCondition nodeClaim = Some lc\<close> False since late step
            show ?thesis
              by (auto simp add: Reconcile_def clock_Since_def w1_def IgnoreNotFound_def
                    LaunchTimeout_def)
          next
            case None
            have "Reconcile l nodeClaim w = Reconcile_registration l nodeClaim ?reg w2"
              using None notreg \<open>launchedCondition nodeClaim = Some lc\<close> False since late step
              by (simp add: Reconcile_def clock_Since_def w1_def w2_def LaunchTimeout_def)
            with rest show ?thesis
              by (intro exI [of _ "[EvSince (LastTransitionTime lc) d, EvDelete nodeClaim None,
                     EvInfo launchTimeout launchTimeoutReason,
                     disrupted launchTimeoutReason nodeClaim] @ rest"])
                 (auto simp add: w2_def w1_def disrupted_def)
          qed
        qed
      qed
    qed
  qed
qed

lemma calls_append: "trace w' = trace w @ evs \<Longrightarrow> calls w w' = evs"
  by (simp add: calls_def)

subsection \<open>The store without faults\<close>

lemma find_filter_out: "find P (filter (\<lambda>x. \<not> P x) xs) = None"
  by (simp add: find_None_iff)

lemma mem_clock_Since:
  "clock_Since memLiveness t w =
     (Sub (now (ext w)) t, \<lparr>ext = ext w, trace = trace w @ [EvSince t (Sub (now (ext w)) t)]\<rparr>)"
  by (simp add: clock_Since_def memLiveness_def fakeClock_def)

lemma mem_Delete:
  assumes "Delete (kubeClient memLiveness) nodeClaim s = (r, s')"
  shows "gone nodeClaim s' \<and> now s' = now s \<and> (gone nodeClaim s \<longrightarrow> r = Some NotFound)"
  using assms
  by (auto simp add: memLiveness_def memClient_def gone_def find_filter_out
      split: option.splits)

lemma mem_deleteNodeClaimForTimeout:
  assumes "deleteNodeClaimForTimeout memLiveness timeout nodeClaim w = (r, w')"
  shows "gone nodeClaim (ext w') \<and> now (ext w') = now (ext w)
         \<and> (gone nodeClaim (ext w) \<longrightarrow> r = Some NotFound)"
proof -
  obtain r0 s0 where del: "Delete (kubeClient memLiveness) nodeClaim (ext w) = (r0, s0)"
    by (cases "Delete (kubeClient memLiveness) nodeClaim (ext w)")
  from deleteNodeClaimForTimeout_calls [OF del, of timeout] assms mem_Delete [OF del]
  show ?thesis by auto
qed

lemma mem_Get_name:
  "Get (kubeClient memLiveness) name s = (Inr p, s') \<Longrightarrow>
     s' = s \<and> find (\<lambda>q. Name q = Name p) (nodePools s) = Some p"
  by (auto simp add: memLiveness_def memClient_def find_Some_iff split: option.splits)

lemma mem_Get_state: "snd (Get (kubeClient memLiveness) name s) = s"
  by (simp add: memLiveness_def memClient_def split: option.splits)

text \<open>With no other writer the pool is as it was read, so the conditional patch goes
  through.\<close>

lemma mem_StatusPatch:
  assumes "find (\<lambda>q. Name q = Name p) (nodePools s) = Some stored"
    and "Name p = Name stored"
    and "StatusPatch (kubeClient memLiveness) p stored s = (r, s')"
  shows "r = None \<and> nodeClaims s' = nodeClaims s \<and> now s' = now s"
  using assms by (auto simp add: memLiveness_def memClient_def split: if_splits)

lemma mem_updateNodePoolRegistrationHealth:
  assumes "updateNodePoolRegistrationHealth memLiveness nodeClaim w = (err, w')"
  shows "nodeClaims (ext w') = nodeClaims (ext w) \<and> now (ext w') = now (ext w)
         \<and> (launchedCondition nodeClaim \<noteq> None \<longrightarrow> IgnoreNotFound err = None)"
proof -
  let ?name = "label (Labels nodeClaim) NodePoolLabelKey"
  show ?thesis
  proof (cases "?name = []")
    case True
    with assms show ?thesis
      by (auto simp add: updateNodePoolRegistrationHealth_def IgnoreNotFound_def)
  next
    case named: False
    obtain g s1 where get: "Get (kubeClient memLiveness) ?name (ext w) = (g, s1)"
      by (cases "Get (kubeClient memLiveness) ?name (ext w)")
    have s1: "s1 = ext w"
      using mem_Get_state [of ?name "ext w"] get by simp
    show ?thesis
    proof (cases g)
      case (Inl e)
      with assms named get s1 show ?thesis
        by (auto simp add: updateNodePoolRegistrationHealth_def kubeClient_Get_def
              memLiveness_def memClient_def IgnoreNotFound_def split: option.splits)
    next
      case (Inr p)
      from mem_Get_name get Inr
      have found: "find (\<lambda>q. Name q = Name p) (nodePools (ext w)) = Some p"
        by blast
      have patch: "r = None \<and> nodeClaims s' = nodeClaims (ext w) \<and> now s' = now (ext w)"
        if "StatusPatch (kubeClient memLiveness) (p\<lparr>NodePoolConditions := cs\<rparr>) p (ext w)
              = (r, s')"
        for cs r s'
        using mem_StatusPatch [of "p\<lparr>NodePoolConditions := cs\<rparr>" "ext w" p r s'] found that
        by simp
      from assms named get s1 Inr show ?thesis
        by (auto simp add: updateNodePoolRegistrationHealth_def kubeClient_Get_def
              kubeClient_StatusPatch_def Let_def IgnoreNotFound_def
            split: if_splits option.splits prod.splits dest: patch)
    qed
  qed
qed

lemma mem_Reconcile_registration_state:
  "now (ext (snd (Reconcile_registration memLiveness nodeClaim registered w))) = now (ext w)
   \<and> (gone nodeClaim (ext w) \<longrightarrow>
        gone nodeClaim (ext (snd (Reconcile_registration memLiveness nodeClaim registered w))))"
proof (cases registered)
  case None
  then show ?thesis by (simp add: Reconcile_registration_def)
next
  case (Some rc)
  define w1 where "w1 = \<lparr>ext = ext w,
     trace = trace w @ [EvSince (LastTransitionTime rc) (Sub (now (ext w)) (LastTransitionTime rc))]\<rparr>"
  obtain err w2 where upd: "updateNodePoolRegistrationHealth memLiveness nodeClaim w1 = (err, w2)"
    by (cases "updateNodePoolRegistrationHealth memLiveness nodeClaim w1")
  note u = mem_updateNodePoolRegistrationHealth [OF upd]
  obtain r w3 where del:
    "deleteNodeClaimForTimeout memLiveness RegistrationTimeout nodeClaim w2 = (r, w3)"
    by (cases "deleteNodeClaimForTimeout memLiveness RegistrationTimeout nodeClaim w2")
  note dl = mem_deleteNodeClaimForTimeout [OF del]
  from Some upd u del dl show ?thesis
    by (auto simp add: Reconcile_registration_def mem_clock_Since w1_def Let_def gone_def
        split: option.splits)
qed

text \<open>A run on a claim that has timed out, at either stage, leaves the store without
  the claim.\<close>

lemma mem_Reconcile_first:
  assumes "(\<not> IsTrue (registeredCondition nodeClaim) \<and> launchedCondition nodeClaim = Some c
              \<and> \<not> IsTrue (Some c) \<and> launchTimeout \<le>s Sub (now (ext w)) (LastTransitionTime c))
         \<or> (registeredCondition nodeClaim = Some c \<and> \<not> IsTrue (Some c)
              \<and> IsTrue (launchedCondition nodeClaim)
              \<and> registrationTimeout \<le>s Sub (now (ext w)) (LastTransitionTime c))"
  shows "gone nodeClaim (ext (snd (Reconcile memLiveness nodeClaim w)))
         \<and> now (ext (snd (Reconcile memLiveness nodeClaim w))) = now (ext w)"
  using assms
proof
  assume a: "\<not> IsTrue (registeredCondition nodeClaim) \<and> launchedCondition nodeClaim = Some c
              \<and> \<not> IsTrue (Some c) \<and> launchTimeout \<le>s Sub (now (ext w)) (LastTransitionTime c)"
  define w1 where "w1 = \<lparr>ext = ext w,
     trace = trace w @ [EvSince (LastTransitionTime c) (Sub (now (ext w)) (LastTransitionTime c))]\<rparr>"
  have late: "\<not> 0 <s launchTimeout - Sub (now (ext w)) (LastTransitionTime c)"
    using a launchTimeout_nonneg by (intro timed_out) simp_all
  obtain r w2 where del:
    "deleteNodeClaimForTimeout memLiveness LaunchTimeout nodeClaim w1 = (r, w2)"
    by (cases "deleteNodeClaimForTimeout memLiveness LaunchTimeout nodeClaim w1")
  note dl = mem_deleteNodeClaimForTimeout [OF del]
  note tl = mem_Reconcile_registration_state [of nodeClaim "registeredCondition nodeClaim" w2]
  from a late del dl tl show ?thesis
    by (cases r) (simp_all add: Reconcile_def mem_clock_Since w1_def)
next
  assume a: "registeredCondition nodeClaim = Some c \<and> \<not> IsTrue (Some c)
              \<and> IsTrue (launchedCondition nodeClaim)
              \<and> registrationTimeout \<le>s Sub (now (ext w)) (LastTransitionTime c)"
  define w1 where "w1 = \<lparr>ext = ext w,
     trace = trace w @ [EvSince (LastTransitionTime c) (Sub (now (ext w)) (LastTransitionTime c))]\<rparr>"
  have late: "\<not> 0 <s registrationTimeout - Sub (now (ext w)) (LastTransitionTime c)"
    using a registrationTimeout_nonneg by (intro timed_out) simp_all
  from a obtain lc where lc: "launchedCondition nodeClaim = Some lc"
    by (auto simp add: IsTrue_def split: option.splits)
  obtain err w2 where upd: "updateNodePoolRegistrationHealth memLiveness nodeClaim w1 = (err, w2)"
    by (cases "updateNodePoolRegistrationHealth memLiveness nodeClaim w1")
  note u = mem_updateNodePoolRegistrationHealth [OF upd]
  obtain r w3 where del:
    "deleteNodeClaimForTimeout memLiveness RegistrationTimeout nodeClaim w2 = (r, w3)"
    by (cases "deleteNodeClaimForTimeout memLiveness RegistrationTimeout nodeClaim w2")
  note dl = mem_deleteNodeClaimForTimeout [OF del]
  from a lc late upd u del dl show ?thesis
    by (cases r) (simp_all add: Reconcile_def Reconcile_registration_def mem_clock_Since w1_def)
qed

text \<open>A run on a timed-out claim that the store no longer holds ends as done.\<close>

lemma mem_Reconcile_again:
  assumes "(\<not> IsTrue (registeredCondition nodeClaim) \<and> launchedCondition nodeClaim = Some c
              \<and> \<not> IsTrue (Some c) \<and> launchTimeout \<le>s Sub (now (ext w)) (LastTransitionTime c))
         \<or> (registeredCondition nodeClaim = Some c \<and> \<not> IsTrue (Some c)
              \<and> IsTrue (launchedCondition nodeClaim)
              \<and> registrationTimeout \<le>s Sub (now (ext w)) (LastTransitionTime c))"
    and "gone nodeClaim (ext w)"
  shows "fst (Reconcile memLiveness nodeClaim w) = (\<lparr>Requeue = False, RequeueAfter = 0\<rparr>, None)"
  using assms(1)
proof
  assume a: "\<not> IsTrue (registeredCondition nodeClaim) \<and> launchedCondition nodeClaim = Some c
              \<and> \<not> IsTrue (Some c) \<and> launchTimeout \<le>s Sub (now (ext w)) (LastTransitionTime c)"
  define w1 where "w1 = \<lparr>ext = ext w,
     trace = trace w @ [EvSince (LastTransitionTime c) (Sub (now (ext w)) (LastTransitionTime c))]\<rparr>"
  have late: "\<not> 0 <s launchTimeout - Sub (now (ext w)) (LastTransitionTime c)"
    using a launchTimeout_nonneg by (intro timed_out) simp_all
  obtain r w2 where del:
    "deleteNodeClaimForTimeout memLiveness LaunchTimeout nodeClaim w1 = (r, w2)"
    by (cases "deleteNodeClaimForTimeout memLiveness LaunchTimeout nodeClaim w1")
  from mem_deleteNodeClaimForTimeout [OF del] assms(2) have "r = Some NotFound"
    by (simp add: w1_def)
  with a late del show ?thesis
    by (simp add: Reconcile_def mem_clock_Since w1_def IgnoreNotFound_def)
next
  assume a: "registeredCondition nodeClaim = Some c \<and> \<not> IsTrue (Some c)
              \<and> IsTrue (launchedCondition nodeClaim)
              \<and> registrationTimeout \<le>s Sub (now (ext w)) (LastTransitionTime c)"
  define w1 where "w1 = \<lparr>ext = ext w,
     trace = trace w @ [EvSince (LastTransitionTime c) (Sub (now (ext w)) (LastTransitionTime c))]\<rparr>"
  have late: "\<not> 0 <s registrationTimeout - Sub (now (ext w)) (LastTransitionTime c)"
    using a registrationTimeout_nonneg by (intro timed_out) simp_all
  from a obtain lc where lc: "launchedCondition nodeClaim = Some lc"
    by (auto simp add: IsTrue_def split: option.splits)
  obtain err w2 where upd: "updateNodePoolRegistrationHealth memLiveness nodeClaim w1 = (err, w2)"
    by (cases "updateNodePoolRegistrationHealth memLiveness nodeClaim w1")
  note u = mem_updateNodePoolRegistrationHealth [OF upd]
  obtain r w3 where del:
    "deleteNodeClaimForTimeout memLiveness RegistrationTimeout nodeClaim w2 = (r, w3)"
    by (cases "deleteNodeClaimForTimeout memLiveness RegistrationTimeout nodeClaim w2")
  from mem_deleteNodeClaimForTimeout [OF del] assms(2) u have "r = Some NotFound"
    by (simp add: w1_def gone_def)
  with a lc late upd u del show ?thesis
    by (simp add: Reconcile_def Reconcile_registration_def mem_clock_Since w1_def
          IgnoreNotFound_def)
qed





section \<open>The claims\<close>

text \<open>
  C4. For every claim whose Registered condition is present and True, Reconcile returns
  done (no requeue, no error) and makes no call at all: the world and its trace are as
  before, so nothing is deleted and no pool is written, whatever the Launched condition is.
\<close>

theorem Reconcile_registered_done:
  "IsTrue (registeredCondition nodeClaim) \<Longrightarrow>
   Reconcile l nodeClaim w = ((\<lparr>Requeue = False, RequeueAfter = 0\<rparr>, None), w)"
  by (simp add: Reconcile_def)

theorem Reconcile_registered_done_witness:
  "Reconcile memLiveness
     (testClaim [testCondition ConditionTypeRegistered ConditionTrue 0])
     (start (testCluster 1200000000000 [] ConditionUnknown))
   = ((\<lparr>Requeue = False, RequeueAfter = 0\<rparr>, None),
      start (testCluster 1200000000000 [] ConditionUnknown))"
  using Reconcile_registered_done
    [of "testClaim [testCondition ConditionTypeRegistered ConditionTrue 0]"
        memLiveness "start (testCluster 1200000000000 [] ConditionUnknown)"]
  by (simp add: test_defs const_defs)

text \<open>
  C5, as amended. For every claim whose Registered condition is not True and whose
  Launched condition is absent, and for every claim whose Launched condition is True and
  whose Registered condition is absent, Reconcile returns requeue-immediately with no
  error and makes no call at all: the clock is not read, so no elapsed time matters,
  nothing is deleted and no pool is written.
\<close>

theorem Reconcile_absent_requeue:
  assumes "(\<not> IsTrue (registeredCondition nodeClaim) \<and> launchedCondition nodeClaim = None)
         \<or> (IsTrue (launchedCondition nodeClaim) \<and> registeredCondition nodeClaim = None)"
  shows "Reconcile l nodeClaim w = ((\<lparr>Requeue = True, RequeueAfter = 0\<rparr>, None), w)"
  using assms
  by (auto simp add: Reconcile_def Reconcile_registration_def IsTrue_def split: option.splits)

theorem Reconcile_absent_requeue_witness:
  "Reconcile memLiveness (testClaim [testCondition ConditionTypeRegistered ConditionUnknown 0])
     (start (testCluster 1200000000000 [] ConditionUnknown))
   = ((\<lparr>Requeue = True, RequeueAfter = 0\<rparr>, None),
      start (testCluster 1200000000000 [] ConditionUnknown))
   \<and> Reconcile memLiveness (testClaim [testCondition ConditionTypeLaunched ConditionTrue 0])
     (start (testCluster 1200000000000 [] ConditionUnknown))
   = ((\<lparr>Requeue = True, RequeueAfter = 0\<rparr>, None),
      start (testCluster 1200000000000 [] ConditionUnknown))"
  using Reconcile_absent_requeue
          [of "testClaim [testCondition ConditionTypeRegistered ConditionUnknown 0]"
              memLiveness "start (testCluster 1200000000000 [] ConditionUnknown)"]
        Reconcile_absent_requeue
          [of "testClaim [testCondition ConditionTypeLaunched ConditionTrue 0]"
              memLiveness "start (testCluster 1200000000000 [] ConditionUnknown)"]
  by (simp add: test_defs const_defs)

text \<open>The claim as written covers a claim with Launched absent and Registered True; there
  Reconcile returns done, not requeue-immediately.\<close>

theorem Reconcile_absent_counterexample:
  "launchedCondition (testClaim [testCondition ConditionTypeRegistered ConditionTrue 0]) = None
   \<and> fst (Reconcile memLiveness (testClaim [testCondition ConditionTypeRegistered ConditionTrue 0])
            (start (testCluster 0 [] ConditionUnknown)))
     = (\<lparr>Requeue = False, RequeueAfter = 0\<rparr>, None)"
  by (simp add: Reconcile_def test_defs const_defs)

text \<open>
  C6, as amended. Let the claim's Registered condition be not True and its Launched
  condition present and not True (the stage's timeout is then launchTimeout and the
  condition is Launched), or let Launched be True and Registered present and not True
  (registrationTimeout, Registered). If the one clock reading \<open>d\<close> for the condition's
  lastTransitionTime is below the timeout \<open>T\<close> and \<open>T - d\<close> fits a Duration, then
  Reconcile returns requeue-after \<open>T - d\<close> with no error, that duration is strictly
  positive and is exactly the timeout minus the elapsed time, and the only call of the
  run is that clock reading: no delete, no pool read or write.
\<close>

theorem Reconcile_window_requeueAfter:
  assumes stage:
    "(\<not> IsTrue (registeredCondition nodeClaim) \<and> launchedCondition nodeClaim = Some c
        \<and> \<not> IsTrue (Some c) \<and> T = launchTimeout)
     \<or> (registeredCondition nodeClaim = Some c \<and> \<not> IsTrue (Some c)
        \<and> IsTrue (launchedCondition nodeClaim) \<and> T = registrationTimeout)"
    and reading: "Since (clock l) (LastTransitionTime c) (ext w) = (d, s)"
    and window: "d <s T"
    and fits: "sint T - sint d < 2 ^ 63"
  shows "Reconcile l nodeClaim w =
           ((\<lparr>Requeue = False, RequeueAfter = T - d\<rparr>, None),
            \<lparr>ext = s, trace = trace w @ [EvSince (LastTransitionTime c) d]\<rparr>)
         \<and> 0 <s T - d \<and> sint (T - d) = sint T - sint d"
proof -
  note pos = in_window [OF window fits]
  from stage show ?thesis
  proof
    assume "\<not> IsTrue (registeredCondition nodeClaim) \<and> launchedCondition nodeClaim = Some c
        \<and> \<not> IsTrue (Some c) \<and> T = launchTimeout"
    with reading pos show ?thesis
      by (simp add: Reconcile_def clock_Since_def)
  next
    assume "registeredCondition nodeClaim = Some c \<and> \<not> IsTrue (Some c)
        \<and> IsTrue (launchedCondition nodeClaim) \<and> T = registrationTimeout"
    with reading pos show ?thesis
      by (auto simp add: Reconcile_def Reconcile_registration_def clock_Since_def IsTrue_def
            split: option.splits)
  qed
qed

theorem Reconcile_window_requeueAfter_witness:
  "Reconcile memLiveness
     (testClaim [testCondition ConditionTypeLaunched ConditionTrue 0,
                 testCondition ConditionTypeRegistered ConditionUnknown 0])
     (start (testCluster 60000000000 [] ConditionUnknown))
   = ((\<lparr>Requeue = False, RequeueAfter = 840000000000\<rparr>, None),
      \<lparr>ext = testCluster 60000000000 [] ConditionUnknown,
       trace = [EvSince 0 60000000000]\<rparr>)
   \<and> Reconcile memLiveness
     (testClaim [testCondition ConditionTypeLaunched ConditionFalse 0])
     (start (testCluster 60000000000 [] ConditionUnknown))
   = ((\<lparr>Requeue = False, RequeueAfter = 240000000000\<rparr>, None),
      \<lparr>ext = testCluster 60000000000 [] ConditionUnknown,
       trace = [EvSince 0 60000000000]\<rparr>)"
  using Reconcile_window_requeueAfter
    [of "testClaim [testCondition ConditionTypeLaunched ConditionTrue 0,
                 testCondition ConditionTypeRegistered ConditionUnknown 0]"
        "testCondition ConditionTypeRegistered ConditionUnknown 0"
        registrationTimeout memLiveness "start (testCluster 60000000000 [] ConditionUnknown)"
        60000000000 "testCluster 60000000000 [] ConditionUnknown"]
    Reconcile_window_requeueAfter
    [of "testClaim [testCondition ConditionTypeLaunched ConditionFalse 0]"
        "testCondition ConditionTypeLaunched ConditionFalse 0"
        launchTimeout memLiveness "start (testCluster 60000000000 [] ConditionUnknown)"
        60000000000 "testCluster 60000000000 [] ConditionUnknown"]
  by (simp add: test_defs const_defs time_defs)

text \<open>
  The claim as written fails twice. A claim with Registered True, whose Launched
  condition is False for one minute, gets done and no requeue-after. And when the
  Launched condition of a claim carries a lastTransitionTime more than \<open>2^63\<close> nanoseconds
  after the clock's time, the elapsed time is the least Duration, launchTimeout minus
  it wraps to a negative Duration, and the claim is deleted although the elapsed time is
  below launchTimeout.
\<close>

theorem Reconcile_window_counterexample:
  "launchedCondition (testClaim [testCondition ConditionTypeLaunched ConditionFalse 0,
                                 testCondition ConditionTypeRegistered ConditionTrue 0])
     = Some (testCondition ConditionTypeLaunched ConditionFalse 0)
   \<and> \<not> IsTrue (Some (testCondition ConditionTypeLaunched ConditionFalse 0))
   \<and> Sub 60000000000 0 <s launchTimeout
   \<and> fst (Reconcile memLiveness
          (testClaim [testCondition ConditionTypeLaunched ConditionFalse 0,
                      testCondition ConditionTypeRegistered ConditionTrue 0])
          (start (testCluster 60000000000 [] ConditionUnknown)))
       = (\<lparr>Requeue = False, RequeueAfter = 0\<rparr>, None)
   \<and> launchedCondition
       (testClaim [testCondition ConditionTypeLaunched ConditionFalse 9223372036854775808])
     = Some (testCondition ConditionTypeLaunched ConditionFalse 9223372036854775808)
   \<and> Sub 0 9223372036854775808 <s launchTimeout
   \<and> Reconcile memLiveness
          (testClaim [testCondition ConditionTypeLaunched ConditionFalse 9223372036854775808])
          (start (testCluster 0
             [testCondition ConditionTypeLaunched ConditionFalse 9223372036854775808]
             ConditionUnknown))
       = ((\<lparr>Requeue = True, RequeueAfter = 0\<rparr>, None),
          \<lparr>ext = (testCluster 0
                    [testCondition ConditionTypeLaunched ConditionFalse 9223372036854775808]
                    ConditionUnknown)\<lparr>nodeClaims := []\<rparr>,
           trace = [EvSince 9223372036854775808 (- 9223372036854775808),
                    EvDelete
                      (testClaim
                         [testCondition ConditionTypeLaunched ConditionFalse 9223372036854775808])
                      None,
                    EvInfo launchTimeout launchTimeoutReason,
                    disrupted launchTimeoutReason
                      (testClaim
                         [testCondition ConditionTypeLaunched ConditionFalse
                            9223372036854775808])]\<rparr>)"
  by (simp add: body_defs call_defs test_defs const_defs time_defs)

text \<open>
  C1. The claim: for a claim with Launched present and not True and the elapsed time at or
  past launchTimeout, Reconcile deletes the claim exactly once, tagged launch_timeout,
  performs no pool mutation and stops. The Delete and its tag come first (lemma
  \<open>Reconcile_launch_timeout_delete\<close> below), and the run stops when Delete answers with
  an error. When Delete succeeds the run does not stop: lines 84 to 90 return only for an
  error, unlike lines 106 to 112, and the registration stage follows. On the store
  without faults, with the claim in it: a claim with only a Launched condition, False for
  ten minutes, is deleted and Reconcile asks for an immediate requeue; a claim with
  Launched False and Registered Unknown for five minutes is deleted and Reconcile asks
  for a requeue after ten minutes; and when both are sixteen minutes old the claim is
  deleted, the pool's health is patched to False with the launch condition's reason, and
  Delete is called a second time.
\<close>

theorem launch_timeout_delete_goes_on:
  "Reconcile memLiveness (testClaim [testCondition ConditionTypeLaunched ConditionFalse 0])
     (start (testCluster 600000000000 [testCondition ConditionTypeLaunched ConditionFalse 0]
               ConditionUnknown))
   = ((\<lparr>Requeue = True, RequeueAfter = 0\<rparr>, None),
      \<lparr>ext = \<lparr>now = 600000000000, nodeClaims = [], nodePools = [testPool ConditionUnknown]\<rparr>,
       trace = [EvSince 0 600000000000,
                EvDelete (testClaim [testCondition ConditionTypeLaunched ConditionFalse 0]) None,
                EvInfo launchTimeout launchTimeoutReason,
                disrupted launchTimeoutReason
                  (testClaim [testCondition ConditionTypeLaunched ConditionFalse 0])]\<rparr>)
   \<and> Reconcile memLiveness (testClaim failedConditions)
     (start (testCluster 300000000000 failedConditions ConditionUnknown))
   = ((\<lparr>Requeue = False, RequeueAfter = 600000000000\<rparr>, None),
      \<lparr>ext = \<lparr>now = 300000000000, nodeClaims = [], nodePools = [testPool ConditionUnknown]\<rparr>,
       trace = [EvSince 0 300000000000,
                EvDelete (testClaim failedConditions) None,
                EvInfo launchTimeout launchTimeoutReason,
                disrupted launchTimeoutReason (testClaim failedConditions),
                EvSince 0 300000000000]\<rparr>)
   \<and> Reconcile memLiveness (testClaim failedConditions)
     (start (testCluster 960000000000 failedConditions ConditionUnknown))
   = ((\<lparr>Requeue = False, RequeueAfter = 0\<rparr>, None),
      \<lparr>ext = \<lparr>now = 960000000000, nodeClaims = [],
               nodePools = [(failedPool ''TestReason'' ''test message'' 960000000000)
                              \<lparr>ResourceVersion := 8\<rparr>]\<rparr>,
       trace = [EvSince 0 960000000000,
                EvDelete (testClaim failedConditions) None,
                EvInfo launchTimeout launchTimeoutReason,
                disrupted launchTimeoutReason (testClaim failedConditions),
                EvSince 0 960000000000,
                EvGet ''default'' (Inr (testPool ConditionUnknown)),
                EvStatusPatch (failedPool ''TestReason'' ''test message'' 960000000000)
                  (testPool ConditionUnknown) None,
                EvDelete (testClaim failedConditions) (Some NotFound)]\<rparr>)"
  by (simp add: fixture_defs body_defs call_defs test_defs const_defs time_defs Let_def)

text \<open>
  What does hold at the launch timeout, for a claim whose Registered condition is not
  True: Reconcile reads the clock once and then calls Delete on the claim, with no pool
  read or write before it. When Delete answers with an error, nothing else is called and
  Reconcile returns done with no error for NotFound and the error itself otherwise. When
  Delete succeeds, the deletion is tagged right away with the launch_timeout reason, and
  that tag is not emitted a second time.
\<close>

lemma Reconcile_launch_timeout_delete:
  assumes registered: "\<not> IsTrue (registeredCondition nodeClaim)"
    and launched: "launchedCondition nodeClaim = Some c" "\<not> IsTrue (Some c)"
    and reading: "Since (clock l) (LastTransitionTime c) (ext w) = (d, s1)"
    and elapsed: "launchTimeout \<le>s d"
    and answer: "Delete (kubeClient l) nodeClaim s1 = (r, s2)"
  shows "case r of
           Some err \<Rightarrow>
             Reconcile l nodeClaim w =
               ((\<lparr>Requeue = False, RequeueAfter = 0\<rparr>,
                 if err = NotFound then None else Some err),
                \<lparr>ext = s2,
                 trace = trace w @ [EvSince (LastTransitionTime c) d, EvDelete nodeClaim r]\<rparr>)
         | None \<Rightarrow>
             (\<exists>rest. trace (snd (Reconcile l nodeClaim w)) =
                       trace w @ [EvSince (LastTransitionTime c) d, EvDelete nodeClaim None,
                                  EvInfo launchTimeout launchTimeoutReason,
                                  disrupted launchTimeoutReason nodeClaim] @ rest
                     \<and> disrupted launchTimeoutReason nodeClaim \<notin> set rest)"
proof -
  define w1 where "w1 = \<lparr>ext = s1, trace = trace w @ [EvSince (LastTransitionTime c) d]\<rparr>"
  have since: "clock_Since l (LastTransitionTime c) w = (d, w1)"
    using reading by (simp add: clock_Since_def w1_def)
  have late: "\<not> 0 <s launchTimeout - d"
    using elapsed launchTimeout_nonneg by (rule timed_out)
  have del: "Delete (kubeClient l) nodeClaim (ext w1) = (r, s2)"
    using answer by (simp add: w1_def)
  note step = deleteNodeClaimForTimeout_calls [OF del, of LaunchTimeout]
  show ?thesis
  proof (cases r)
    case (Some err)
    with registered launched since late step show ?thesis
      by (simp add: Reconcile_def IgnoreNotFound_def LaunchTimeout_def w1_def)
  next
    case None
    define w2 where "w2 = \<lparr>ext = s2,
       trace = trace w1 @ [EvDelete nodeClaim None, EvInfo launchTimeout launchTimeoutReason,
                 disrupted launchTimeoutReason nodeClaim]\<rparr>"
    have "Reconcile l nodeClaim w =
            Reconcile_registration l nodeClaim (registeredCondition nodeClaim) w2"
      using None registered launched since late step
      by (simp add: Reconcile_def LaunchTimeout_def w2_def)
    with Reconcile_registration_calls [of l nodeClaim "registeredCondition nodeClaim" w2] None
    show ?thesis by (auto simp add: w2_def w1_def)
  qed
qed

text \<open>
  C2. Let the claim's Registered condition be present and not True with the elapsed time
  since its lastTransitionTime at or past registrationTimeout, let the claim name an
  owning pool, let Get return that pool with its registration health Unknown, and let
  the store accept the write. Then the pool-health step reads the pool and issues exactly
  one conditional status patch against the pool as read, in which the health condition
  is False with reason \<open>RegistrationFailed\<close> and message \<open>Failed to register node\<close>
  when the claim's Launched condition is True, and with the Launched condition's own
  reason and message otherwise. When Launched is True, Reconcile is exactly: the clock
  reading, the Get, that one patch, the Delete of the claim, and after a successful
  Delete the registration_timeout tag; it returns done, with the Delete's error unless
  that is NotFound.
\<close>

theorem Reconcile_registration_timeout_health:
  assumes registered: "registeredCondition nodeClaim = Some c" "\<not> IsTrue (Some c)"
    and launched: "launchedCondition nodeClaim = Some lc"
    and reading: "Since (clock l) (LastTransitionTime c) (ext w) = (d, s1)"
    and elapsed: "registrationTimeout \<le>s d"
    and owner: "label (Labels nodeClaim) NodePoolLabelKey = name" "name \<noteq> []"
    and pool: "Get (kubeClient l) name s1 = (Inr nodePool, s2)"
    and health: "IsUnknown (ConditionSet_Get (NodePoolConditions nodePool)
                   ConditionTypeNodeRegistrationHealthy)"
    and patched: "patched = nodePool\<lparr>NodePoolConditions :=
          SetFalse (NodePoolConditions nodePool) ConditionTypeNodeRegistrationHealthy
            (if IsTrue (Some lc) then ''RegistrationFailed'' else Reason lc)
            (if IsTrue (Some lc) then ''Failed to register node'' else Message lc)
            (wallNow l s2)\<rparr>"
    and written: "StatusPatch (kubeClient l) patched nodePool s2 = (None, s3)"
    and answer: "Delete (kubeClient l) nodeClaim s3 = (r, s4)"
  shows "updateNodePoolRegistrationHealth l nodeClaim
           \<lparr>ext = s1, trace = trace w @ [EvSince (LastTransitionTime c) d]\<rparr> =
           (None, \<lparr>ext = s3,
                   trace = trace w @ [EvSince (LastTransitionTime c) d,
                             EvGet name (Inr nodePool), EvStatusPatch patched nodePool None]\<rparr>)
         \<and> ConditionSet_Get (NodePoolConditions patched) ConditionTypeNodeRegistrationHealthy
             = Some \<lparr>Type = ConditionTypeNodeRegistrationHealthy, Status = ConditionFalse,
                     Reason = (if IsTrue (Some lc) then ''RegistrationFailed'' else Reason lc),
                     Message = (if IsTrue (Some lc) then ''Failed to register node''
                                else Message lc),
                     LastTransitionTime = wallNow l s2\<rparr>
         \<and> (IsTrue (Some lc) \<longrightarrow>
              Reconcile l nodeClaim w =
                ((\<lparr>Requeue = False, RequeueAfter = 0\<rparr>, IgnoreNotFound r),
                 \<lparr>ext = s4,
                  trace = trace w @ [EvSince (LastTransitionTime c) d,
                            EvGet name (Inr nodePool), EvStatusPatch patched nodePool None,
                            EvDelete nodeClaim r] @
                          (if r = None
                           then [EvInfo registrationTimeout registrationTimeoutReason,
                                 disrupted registrationTimeoutReason nodeClaim]
                           else [])\<rparr>))"
proof -
  define w1 where "w1 = \<lparr>ext = s1, trace = trace w @ [EvSince (LastTransitionTime c) d]\<rparr>"
  define w3 where "w3 = \<lparr>ext = s3,
     trace = trace w @ [EvSince (LastTransitionTime c) d,
               EvGet name (Inr nodePool), EvStatusPatch patched nodePool None]\<rparr>"
  have since: "clock_Since l (LastTransitionTime c) w = (d, w1)"
    using reading by (simp add: clock_Since_def w1_def)
  have late: "\<not> 0 <s registrationTimeout - d"
    using elapsed registrationTimeout_nonneg by (rule timed_out)
  have upd: "updateNodePoolRegistrationHealth l nodeClaim w1 = (None, w3)"
    using owner pool health launched written patched
    by (cases "IsTrue (Some lc)")
       (simp_all add: updateNodePoolRegistrationHealth_def kubeClient_Get_def
          kubeClient_StatusPatch_def w1_def w3_def IgnoreNotFound_def)
  have set: "ConditionSet_Get (NodePoolConditions patched) ConditionTypeNodeRegistrationHealthy
             = Some \<lparr>Type = ConditionTypeNodeRegistrationHealthy, Status = ConditionFalse,
                     Reason = (if IsTrue (Some lc) then ''RegistrationFailed'' else Reason lc),
                     Message = (if IsTrue (Some lc) then ''Failed to register node''
                                else Message lc),
                     LastTransitionTime = wallNow l s2\<rparr>"
    by (simp add: patched ConditionSet_Get_SetFalse)
  have del: "Delete (kubeClient l) nodeClaim (ext w3) = (r, s4)"
    using answer by (simp add: w3_def)
  note step = deleteNodeClaimForTimeout_calls [OF del, of RegistrationTimeout]
  have rec: "Reconcile l nodeClaim w =
                ((\<lparr>Requeue = False, RequeueAfter = 0\<rparr>, IgnoreNotFound r),
                 \<lparr>ext = s4,
                  trace = trace w3 @ [EvDelete nodeClaim r] @
                          (if r = None
                           then [EvInfo registrationTimeout registrationTimeoutReason,
                                 disrupted registrationTimeoutReason nodeClaim]
                           else [])\<rparr>)"
    if "IsTrue (Some lc)"
    using that registered launched since late upd step
    by (cases r) (simp_all add: Reconcile_def Reconcile_registration_def IgnoreNotFound_def
          RegistrationTimeout_def)
  from upd set rec show ?thesis by (simp add: w1_def w3_def)
qed

theorem Reconcile_registration_timeout_health_witness:
  "Reconcile memLiveness (testClaim launchedConditions)
     (start (testCluster 1200000000000 launchedConditions ConditionUnknown))
   = ((\<lparr>Requeue = False, RequeueAfter = 0\<rparr>, None),
      \<lparr>ext = \<lparr>now = 1200000000000, nodeClaims = [],
               nodePools = [(failedPool ''RegistrationFailed'' ''Failed to register node''
                               1200000000000)\<lparr>ResourceVersion := 8\<rparr>]\<rparr>,
       trace = [EvSince 0 1200000000000,
                EvGet ''default'' (Inr (testPool ConditionUnknown)),
                EvStatusPatch
                  (failedPool ''RegistrationFailed'' ''Failed to register node'' 1200000000000)
                  (testPool ConditionUnknown) None,
                EvDelete (testClaim launchedConditions) None,
                EvInfo registrationTimeout registrationTimeoutReason,
                disrupted registrationTimeoutReason (testClaim launchedConditions)]\<rparr>)"
  using Reconcile_registration_timeout_health
    [where nodeClaim = "testClaim launchedConditions"
       and c = "testCondition ConditionTypeRegistered ConditionUnknown 0"
       and lc = "testCondition ConditionTypeLaunched ConditionTrue 0"
       and l = memLiveness
       and w = "start (testCluster 1200000000000 launchedConditions ConditionUnknown)"
       and d = 1200000000000
       and ?s1.0 = "testCluster 1200000000000 launchedConditions ConditionUnknown"
       and name = "''default''"
       and nodePool = "testPool ConditionUnknown"
       and ?s2.0 = "testCluster 1200000000000 launchedConditions ConditionUnknown"
       and patched = "failedPool ''RegistrationFailed'' ''Failed to register node''
                        1200000000000"
       and ?s3.0 = "\<lparr>now = 1200000000000, nodeClaims = [testClaim launchedConditions],
               nodePools = [(failedPool ''RegistrationFailed'' ''Failed to register node''
                               1200000000000)\<lparr>ResourceVersion := 8\<rparr>]\<rparr>"
       and r = None
       and ?s4.0 = "\<lparr>now = 1200000000000, nodeClaims = [],
               nodePools = [(failedPool ''RegistrationFailed'' ''Failed to register node''
                               1200000000000)\<lparr>ResourceVersion := 8\<rparr>]\<rparr>"]
  by (simp add: fixture_defs test_defs const_defs time_defs)

text \<open>
  C3. The claim: when the conditional pool patch of the registration-timeout handling
  fails with Conflict, Reconcile returns requeue-immediately with no error and the claim
  is not deleted in that run. The first half holds, and after the Conflict nothing more
  is called (lemma \<open>conflict_requeues\<close> below). The second half fails when the run came
  through the launch stage: a Delete that succeeds there is not followed by a return, so
  the run goes on into the registration stage. Here a claim whose launch failed twenty
  minutes ago, with Registered Unknown for as long, is run against a store whose pool
  another writer has changed: the claim is deleted, tagged launch_timeout, and then the
  patch meets the Conflict and Reconcile asks for a requeue.
\<close>

theorem conflict_after_launch_timeout_delete:
  "Reconcile racingLiveness (testClaim failedConditions)
     (start (testCluster 1200000000000 failedConditions ConditionUnknown))
   = ((\<lparr>Requeue = True, RequeueAfter = 0\<rparr>, None),
      \<lparr>ext = \<lparr>now = 1200000000000, nodeClaims = [],
               nodePools = [testPool ConditionUnknown]\<rparr>,
       trace = [EvSince 0 1200000000000,
                EvDelete (testClaim failedConditions) None,
                EvInfo launchTimeout launchTimeoutReason,
                disrupted launchTimeoutReason (testClaim failedConditions),
                EvSince 0 1200000000000,
                EvGet ''default'' (Inr (testPool ConditionUnknown)),
                EvStatusPatch (failedPool ''TestReason'' ''test message'' 1200000000000)
                  (testPool ConditionUnknown) (Some Conflict)]\<rparr>)"
  by (simp add: fixture_defs body_defs call_defs test_defs const_defs time_defs Let_def)

text \<open>What does hold for a Conflict: the run ends there with requeue-immediately and no
  error, and when the claim's Launched condition is True nothing was deleted before.\<close>

lemma conflict_requeues:
  assumes registered: "registeredCondition nodeClaim = Some c" "\<not> IsTrue (Some c)"
    and launched: "IsTrue (launchedCondition nodeClaim)"
    and reading: "Since (clock l) (LastTransitionTime c) (ext w) = (d, s1)"
    and elapsed: "registrationTimeout \<le>s d"
    and owner: "label (Labels nodeClaim) NodePoolLabelKey = name" "name \<noteq> []"
    and pool: "Get (kubeClient l) name s1 = (Inr nodePool, s2)"
    and health: "IsUnknown (ConditionSet_Get (NodePoolConditions nodePool)
                   ConditionTypeNodeRegistrationHealthy)"
    and patched: "patched = nodePool\<lparr>NodePoolConditions :=
          SetFalse (NodePoolConditions nodePool) ConditionTypeNodeRegistrationHealthy
            ''RegistrationFailed'' ''Failed to register node'' (wallNow l s2)\<rparr>"
    and written: "StatusPatch (kubeClient l) patched nodePool s2 = (Some Conflict, s3)"
  shows "Reconcile l nodeClaim w =
           ((\<lparr>Requeue = True, RequeueAfter = 0\<rparr>, None),
            \<lparr>ext = s3,
             trace = trace w @ [EvSince (LastTransitionTime c) d, EvGet name (Inr nodePool),
                       EvStatusPatch patched nodePool (Some Conflict)]\<rparr>)"
proof -
  define w1 where "w1 = \<lparr>ext = s1, trace = trace w @ [EvSince (LastTransitionTime c) d]\<rparr>"
  define w3 where "w3 = \<lparr>ext = s3,
     trace = trace w @ [EvSince (LastTransitionTime c) d,
               EvGet name (Inr nodePool), EvStatusPatch patched nodePool (Some Conflict)]\<rparr>"
  have since: "clock_Since l (LastTransitionTime c) w = (d, w1)"
    using reading by (simp add: clock_Since_def w1_def)
  have late: "\<not> 0 <s registrationTimeout - d"
    using elapsed registrationTimeout_nonneg by (rule timed_out)
  have upd: "updateNodePoolRegistrationHealth l nodeClaim w1 = (Some Conflict, w3)"
    using owner pool health launched written patched
    by (simp add: updateNodePoolRegistrationHealth_def kubeClient_Get_def
          kubeClient_StatusPatch_def w1_def w3_def IgnoreNotFound_def)
  from launched obtain lc where "launchedCondition nodeClaim = Some lc" "IsTrue (Some lc)"
    by (auto simp add: IsTrue_def split: option.splits)
  with registered since late upd show ?thesis
    by (simp add: Reconcile_def Reconcile_registration_def IgnoreNotFound_def IsConflict_def
          w3_def)
qed

text \<open>
  C7. In the registration stage, past registrationTimeout, whenever the pool-health step
  is skipped (the claim carries no owning-pool label, or the pool that Get returns has
  its registration health already True or already False), no status patch is issued and
  the claim is still deleted: the run is the clock reading, the Get when there is a
  label, the Delete of the claim, and after a successful Delete the registration_timeout
  tag. This holds wherever the stage is entered, and so for Reconcile on a claim with
  Launched True and Registered not True. And in every run of Reconcile whatsoever, each
  status patch takes the registration health of the pool as read from Unknown to False
  and changes nothing else of the pool; Unknown is what the condition library reports,
  which includes a pool that has no such condition yet.
\<close>

theorem health_skipped_still_deletes:
  "(registeredCondition nodeClaim = Some c
      \<and> Since (clock l) (LastTransitionTime c) (ext w) = (d, s1)
      \<and> registrationTimeout \<le>s d
      \<and> name = label (Labels nodeClaim) NodePoolLabelKey
      \<and> ((name = [] \<and> s2 = s1 \<and> got = [])
           \<or> (name \<noteq> [] \<and> Get (kubeClient l) name s1 = (Inr nodePool, s2)
               \<and> (IsTrue (ConditionSet_Get (NodePoolConditions nodePool)
                             ConditionTypeNodeRegistrationHealthy)
                    \<or> IsFalse (ConditionSet_Get (NodePoolConditions nodePool)
                                  ConditionTypeNodeRegistrationHealthy))
               \<and> got = [EvGet name (Inr nodePool)]))
      \<and> Delete (kubeClient l) nodeClaim s2 = (r, s3)
      \<and> after =
          ((\<lparr>Requeue = False, RequeueAfter = 0\<rparr>, IgnoreNotFound r),
           \<lparr>ext = s3,
            trace = trace w @ [EvSince (LastTransitionTime c) d] @ got @
                    [EvDelete nodeClaim r] @
                    (if r = None
                     then [EvInfo registrationTimeout registrationTimeoutReason,
                           disrupted registrationTimeoutReason nodeClaim]
                     else [])\<rparr>)
    \<longrightarrow> Reconcile_registration l nodeClaim (registeredCondition nodeClaim) w = after
        \<and> (\<not> IsTrue (Some c) \<and> IsTrue (launchedCondition nodeClaim)
             \<longrightarrow> Reconcile l nodeClaim w = after))
   \<and> (\<forall>e \<in> set (calls w (snd (Reconcile l nodeClaim w))). unknownToFalse e)"
proof (intro conjI impI)
  assume a: "registeredCondition nodeClaim = Some c
      \<and> Since (clock l) (LastTransitionTime c) (ext w) = (d, s1)
      \<and> registrationTimeout \<le>s d
      \<and> name = label (Labels nodeClaim) NodePoolLabelKey
      \<and> ((name = [] \<and> s2 = s1 \<and> got = [])
           \<or> (name \<noteq> [] \<and> Get (kubeClient l) name s1 = (Inr nodePool, s2)
               \<and> (IsTrue (ConditionSet_Get (NodePoolConditions nodePool)
                             ConditionTypeNodeRegistrationHealthy)
                    \<or> IsFalse (ConditionSet_Get (NodePoolConditions nodePool)
                                  ConditionTypeNodeRegistrationHealthy))
               \<and> got = [EvGet name (Inr nodePool)]))
      \<and> Delete (kubeClient l) nodeClaim s2 = (r, s3)
      \<and> after =
          ((\<lparr>Requeue = False, RequeueAfter = 0\<rparr>, IgnoreNotFound r),
           \<lparr>ext = s3,
            trace = trace w @ [EvSince (LastTransitionTime c) d] @ got @
                    [EvDelete nodeClaim r] @
                    (if r = None
                     then [EvInfo registrationTimeout registrationTimeoutReason,
                           disrupted registrationTimeoutReason nodeClaim]
                     else [])\<rparr>)"
  define w1 where "w1 = \<lparr>ext = s1, trace = trace w @ [EvSince (LastTransitionTime c) d]\<rparr>"
  define w2 where "w2 = \<lparr>ext = s2, trace = trace w1 @ got\<rparr>"
  have since: "clock_Since l (LastTransitionTime c) w = (d, w1)"
    using a by (simp add: clock_Since_def w1_def)
  have late: "\<not> 0 <s registrationTimeout - d"
    using a registrationTimeout_nonneg by (intro timed_out) simp_all
  have upd: "updateNodePoolRegistrationHealth l nodeClaim w1 = (None, w2)"
    using a
    by (auto simp add: updateNodePoolRegistrationHealth_def kubeClient_Get_def w1_def w2_def
          IsUnknown_def IsTrue_def IsFalse_def split: option.splits)
  have del: "Delete (kubeClient l) nodeClaim (ext w2) = (r, s3)"
    using a by (simp add: w2_def)
  note step = deleteNodeClaimForTimeout_calls [OF del, of RegistrationTimeout]
  show tail: "Reconcile_registration l nodeClaim (registeredCondition nodeClaim) w = after"
    using a since late upd step
    by (cases r) (simp_all add: Reconcile_registration_def IgnoreNotFound_def
          RegistrationTimeout_def w1_def w2_def)
  assume "\<not> IsTrue (Some c) \<and> IsTrue (launchedCondition nodeClaim)"
  with a tail show "Reconcile l nodeClaim w = after"
    by (auto simp add: Reconcile_def IsTrue_def split: option.splits)
next
  from Reconcile_calls [of l nodeClaim w]
  obtain evs where "trace (snd (Reconcile l nodeClaim w)) = trace w @ evs"
    "\<forall>e \<in> set evs. unknownToFalse e"
    by blast
  then show "\<forall>e \<in> set (calls w (snd (Reconcile l nodeClaim w))). unknownToFalse e"
    by (simp add: calls_append)
qed

theorem health_skipped_still_deletes_witness:
  "Reconcile memLiveness (testClaim launchedConditions)
     (start (testCluster 1200000000000 launchedConditions ConditionFalse))
   = ((\<lparr>Requeue = False, RequeueAfter = 0\<rparr>, None),
      \<lparr>ext = \<lparr>now = 1200000000000, nodeClaims = [], nodePools = [testPool ConditionFalse]\<rparr>,
       trace = [EvSince 0 1200000000000,
                EvGet ''default'' (Inr (testPool ConditionFalse)),
                EvDelete (testClaim launchedConditions) None,
                EvInfo registrationTimeout registrationTimeoutReason,
                disrupted registrationTimeoutReason (testClaim launchedConditions)]\<rparr>)
   \<and> EvStatusPatch
        (failedPool ''RegistrationFailed'' ''Failed to register node'' 1200000000000)
        (testPool ConditionUnknown) None
       \<in> set (calls (start (testCluster 1200000000000 launchedConditions ConditionUnknown))
                (snd (Reconcile memLiveness (testClaim launchedConditions)
                        (start (testCluster 1200000000000 launchedConditions ConditionUnknown)))))
   \<and> unknownToFalse
        (EvStatusPatch
           (failedPool ''RegistrationFailed'' ''Failed to register node'' 1200000000000)
           (testPool ConditionUnknown) None)"
  using health_skipped_still_deletes
    [where nodeClaim = "testClaim launchedConditions"
       and c = "testCondition ConditionTypeRegistered ConditionUnknown 0"
       and l = memLiveness
       and w = "start (testCluster 1200000000000 launchedConditions ConditionFalse)"
       and d = 1200000000000
       and ?s1.0 = "testCluster 1200000000000 launchedConditions ConditionFalse"
       and name = "''default''"
       and nodePool = "testPool ConditionFalse"
       and ?s2.0 = "testCluster 1200000000000 launchedConditions ConditionFalse"
       and got = "[EvGet ''default'' (Inr (testPool ConditionFalse))]"
       and r = None
       and ?s3.0 = "\<lparr>now = 1200000000000, nodeClaims = [],
                      nodePools = [testPool ConditionFalse]\<rparr>"
       and after = "((\<lparr>Requeue = False, RequeueAfter = 0\<rparr>, None),
      \<lparr>ext = \<lparr>now = 1200000000000, nodeClaims = [], nodePools = [testPool ConditionFalse]\<rparr>,
       trace = [EvSince 0 1200000000000,
                EvGet ''default'' (Inr (testPool ConditionFalse)),
                EvDelete (testClaim launchedConditions) None,
                EvInfo registrationTimeout registrationTimeoutReason,
                disrupted registrationTimeoutReason (testClaim launchedConditions)]\<rparr>)"]
    health_skipped_still_deletes
    [where nodeClaim = "testClaim launchedConditions"
       and l = memLiveness
       and w = "start (testCluster 1200000000000 launchedConditions ConditionUnknown)",
     THEN conjunct2]
  by (simp add: fixture_defs body_defs call_defs test_defs const_defs time_defs Let_def)

text \<open>
  C8. In every run of Reconcile in which a Delete of the claim is answered NotFound,
  whether in the launch stage or in the registration stage, Reconcile returns done with
  no error. And on the store without faults, for a claim that has timed out at either
  stage, the first run leaves the store without the claim and a second run on the same
  claim right after it returns done with no error.
\<close>

theorem delete_NotFound_is_done:
  "(EvDelete nodeClaim (Some NotFound) \<in> set (calls w (snd (Reconcile l nodeClaim w)))
      \<longrightarrow> fst (Reconcile l nodeClaim w) = (\<lparr>Requeue = False, RequeueAfter = 0\<rparr>, None))
   \<and> ((\<not> IsTrue (registeredCondition claim) \<and> launchedCondition claim = Some c
          \<and> \<not> IsTrue (Some c)
          \<and> launchTimeout \<le>s Sub (now (ext v)) (LastTransitionTime c))
        \<or> (registeredCondition claim = Some c \<and> \<not> IsTrue (Some c)
          \<and> IsTrue (launchedCondition claim)
          \<and> registrationTimeout \<le>s Sub (now (ext v)) (LastTransitionTime c))
      \<longrightarrow> gone claim (ext (snd (Reconcile memLiveness claim v)))
          \<and> fst (Reconcile memLiveness claim (snd (Reconcile memLiveness claim v)))
              = (\<lparr>Requeue = False, RequeueAfter = 0\<rparr>, None))"
proof (intro conjI impI)
  assume "EvDelete nodeClaim (Some NotFound) \<in> set (calls w (snd (Reconcile l nodeClaim w)))"
  with Reconcile_calls [of l nodeClaim w]
  show "fst (Reconcile l nodeClaim w) = (\<lparr>Requeue = False, RequeueAfter = 0\<rparr>, None)"
    by (auto simp add: calls_append)
next
  assume a: "(\<not> IsTrue (registeredCondition claim) \<and> launchedCondition claim = Some c
          \<and> \<not> IsTrue (Some c)
          \<and> launchTimeout \<le>s Sub (now (ext v)) (LastTransitionTime c))
        \<or> (registeredCondition claim = Some c \<and> \<not> IsTrue (Some c)
          \<and> IsTrue (launchedCondition claim)
          \<and> registrationTimeout \<le>s Sub (now (ext v)) (LastTransitionTime c))"
  note first = mem_Reconcile_first [OF a]
  from first show "gone claim (ext (snd (Reconcile memLiveness claim v)))"
    by simp
  from a first
  show "fst (Reconcile memLiveness claim (snd (Reconcile memLiveness claim v)))
          = (\<lparr>Requeue = False, RequeueAfter = 0\<rparr>, None)"
    by (intro mem_Reconcile_again [where c = c]) simp_all
qed

theorem delete_NotFound_is_done_witness:
  "EvDelete (testClaim failedConditions) (Some NotFound)
     \<in> set (calls (start (testCluster 1200000000000 failedConditions ConditionUnknown))
              (snd (Reconcile memLiveness (testClaim failedConditions)
                      (start (testCluster 1200000000000 failedConditions ConditionUnknown)))))
   \<and> fst (Reconcile memLiveness (testClaim failedConditions)
            (start (testCluster 1200000000000 failedConditions ConditionUnknown)))
       = (\<lparr>Requeue = False, RequeueAfter = 0\<rparr>, None)
   \<and> gone (testClaim launchedConditions)
        (ext (snd (Reconcile memLiveness (testClaim launchedConditions)
                     (start (testCluster 1200000000000 launchedConditions ConditionUnknown)))))
   \<and> fst (Reconcile memLiveness (testClaim launchedConditions)
            (snd (Reconcile memLiveness (testClaim launchedConditions)
                    (start (testCluster 1200000000000 launchedConditions ConditionUnknown)))))
       = (\<lparr>Requeue = False, RequeueAfter = 0\<rparr>, None)"
  using delete_NotFound_is_done
    [where nodeClaim = "testClaim failedConditions"
       and l = memLiveness
       and w = "start (testCluster 1200000000000 failedConditions ConditionUnknown)"
       and claim = "testClaim launchedConditions"
       and c = "testCondition ConditionTypeRegistered ConditionUnknown 0"
       and v = "start (testCluster 1200000000000 launchedConditions ConditionUnknown)"]
  by (simp add: fixture_defs body_defs call_defs test_defs const_defs time_defs gone_def Let_def)




text \<open>
  C10. The claim: on every path the only store mutations are at most one Delete of the
  claim and at most one conditional status patch of the pool, and nothing is written to
  the claim. The frame holds (lemma \<open>Reconcile_calls\<close>: every Delete is of this claim,
  every patch is a pool patch from Unknown to False, at most one patch), but not the
  count of Deletes: after a launch-stage Delete that succeeds the run goes on, and when
  the registration timeout has passed as well it patches the pool with the launch
  condition's reason and calls Delete a second time. On the store without faults:
\<close>

theorem launch_timeout_deletes_twice:
  "Reconcile memLiveness (testClaim failedConditions)
     (start (testCluster 1200000000000 failedConditions ConditionUnknown))
   = ((\<lparr>Requeue = False, RequeueAfter = 0\<rparr>, None),
      \<lparr>ext = \<lparr>now = 1200000000000, nodeClaims = [],
               nodePools = [(failedPool ''TestReason'' ''test message'' 1200000000000)
                              \<lparr>ResourceVersion := 8\<rparr>]\<rparr>,
       trace = [EvSince 0 1200000000000,
                EvDelete (testClaim failedConditions) None,
                EvInfo launchTimeout launchTimeoutReason,
                disrupted launchTimeoutReason (testClaim failedConditions),
                EvSince 0 1200000000000,
                EvGet ''default'' (Inr (testPool ConditionUnknown)),
                EvStatusPatch (failedPool ''TestReason'' ''test message'' 1200000000000)
                  (testPool ConditionUnknown) None,
                EvDelete (testClaim failedConditions) (Some NotFound)]\<rparr>)
   \<and> length (filter isDelete
        (calls (start (testCluster 1200000000000 failedConditions ConditionUnknown))
           (snd (Reconcile memLiveness (testClaim failedConditions)
                   (start (testCluster 1200000000000 failedConditions ConditionUnknown))))))
       = 2"
  by (simp add: fixture_defs body_defs call_defs test_defs const_defs time_defs Let_def)

end
